theory Spec2Isabelle
  imports Complex_Main "HOL-Library.Sublist"
begin

section \<open>Data model of the chat service (chatbot.py)\<close>

text \<open>
  Python strings are lists of code points. A \<^typ>\<open>char\<close> stands for one code point
  (the first 256 of them); \<^const>\<open>length\<close> is Python's \<open>len\<close>.
\<close>

text \<open>A decoded JSON document, as \<open>json.loads\<close> hands it to the framework.\<close>

datatype json =
    JNull
  | JBool bool
  | JNum int
  | JStr string
  | JArr "json list"
  | JObj "(string \<times> json) list"

text \<open>
  Reading a key of a decoded JSON object. The Python decoder builds a dict from the
  members in order, so the last of several members with the same key is the one kept.
\<close>

definition get_member :: "(string \<times> json) list \<Rightarrow> string \<Rightarrow> json option" where
  "get_member kvs k = map_of (rev kvs) k"

text \<open>
  \<open>class MessageRequest(BaseModel)\<close>: \<open>message: str\<close> with \<open>min_length=1\<close>, required;
  \<open>background_info: Union[str, None]\<close>, default \<open>None\<close>.
  \<open>class MessageResponse(BaseModel)\<close>: \<open>reply: str\<close>, required.
\<close>

record MessageRequest =
  message :: string
  background_info :: "string option"

record MessageResponse =
  reply :: string

text \<open>\<open>HTTPException(status_code=..., detail=...)\<close>\<close>

record HTTPException =
  status_code :: nat
  detail :: string

section \<open>Prompt template\<close>

text \<open>
  \<open>ChatPromptTemplate.from_template\<close> is given three adjacent string literals: a
  preamble, the placeholder \<open>{background_context}\<close>, and two newlines with the text
  \<open>User inquiry: \<close> followed by the placeholder \<open>{user_message}\<close>. The parsed template is
  a sequence of literal pieces and named placeholders.
\<close>

datatype segment = Lit string | Var string

definition newline :: char where
  "newline = CHR 0x0A"

definition template :: "segment list" where
  "template =
     [Lit ''You are a helpful AI assistant. '',
      Var ''background_context'',
      Lit ([newline, newline] @ ''User inquiry: ''),
      Var ''user_message'']"

text \<open>
  Formatting replaces every placeholder by the payload's value for it, inserted as it
  is (values are not scanned for braces again). A placeholder without a value in the
  payload raises; an exception is represented by the text \<open>str(e)\<close> of it, which is all
  the service reads. The wording of that one message belongs to the template library and
  is only indicated here.
\<close>

fun format_prompt :: "segment list \<Rightarrow> (string \<times> string) list \<Rightarrow> string + string" where
  "format_prompt [] payload = Inr []"
| "format_prompt (Lit s # segs) payload =
     (case format_prompt segs payload of
        Inl e \<Rightarrow> Inl e
      | Inr rest \<Rightarrow> Inr (s @ rest))"
| "format_prompt (Var v # segs) payload =
     (case map_of payload v of
        None \<Rightarrow> Inl (''missing variables: '' @ v)
      | Some val \<Rightarrow>
          (case format_prompt segs payload of
             Inl e \<Rightarrow> Inl e
           | Inr rest \<Rightarrow> Inr (val @ rest)))"

section \<open>The conversation service\<close>

text \<open>
  The process environment after \<open>load_dotenv()\<close>, read by \<open>os.getenv\<close>.
\<close>

type_synonym environ = "string \<rightharpoonup> string"

text \<open>
  \<open>class GeminiChatService\<close>. The constructor reads \<open>GOOGLE_API_KEY\<close>; \<open>if not api_key\<close>
  holds for an unset variable and for one set to the empty string, and then the
  constructor raises \<open>ValueError\<close>. Otherwise it stores the configured model (model name,
  key, temperature \<open>0.7\<close>) and the template.
\<close>

record GeminiChatService =
  model :: string
  google_api_key :: string
  temperature :: rat
  svc_template :: "segment list"

text \<open>The Python exceptions that leave a function of this program.\<close>

datatype exception =
    ValueError string
  | KeyError string
  | TypeError
  | EOFError

definition GeminiChatService_init :: "environ \<Rightarrow> exception + GeminiChatService" where
  "GeminiChatService_init env =
     (case env ''GOOGLE_API_KEY'' of
        None \<Rightarrow> Inl (ValueError ''GOOGLE_API_KEY environment variable is required'')
      | Some api_key \<Rightarrow>
          if api_key = [] then
            Inl (ValueError ''GOOGLE_API_KEY environment variable is required'')
          else
            Inr \<lparr>model = ''gemini-2.5-flash'',
                 google_api_key = api_key,
                 temperature = 7 / 10,
                 svc_template = template\<rparr>)"

text \<open>
  The completion provider is outside the program: a call takes the configured service and
  the finished prompt, and returns the completion text (\<open>Inr\<close>) or raises (\<open>Inl\<close>, the
  text \<open>str(e)\<close> of the exception). It is a parameter of the model, with a state \<open>'p\<close> of
  its own that every call may change, so that the number of calls made is visible.
\<close>

type_synonym 'p llm = "GeminiChatService \<Rightarrow> string \<Rightarrow> 'p \<Rightarrow> (string + string) \<times> 'p"

text \<open>
  \<open>self.processing_chain = self.template | self.llm | StrOutputParser()\<close>:
  format the prompt, call the provider once, hand its text on unchanged.
\<close>

definition processing_chain ::
  "'p llm \<Rightarrow> GeminiChatService \<Rightarrow> (string \<times> string) list \<Rightarrow> 'p \<Rightarrow> (string + string) \<times> 'p" where
  "processing_chain llm self payload p =
     (case format_prompt (svc_template self) payload of
        Inl e \<Rightarrow> (Inl e, p)
      | Inr prompt \<Rightarrow> llm self prompt p)"

text \<open>The payload dict built by \<open>generate_response\<close>.\<close>

definition make_payload :: "string \<Rightarrow> string \<Rightarrow> (string \<times> string) list" where
  "make_payload user_msg context =
     [(''background_context'', if context \<noteq> [] then ''Context: '' @ context else []),
      (''user_message'', user_msg)]"

text \<open>
  \<open>GeminiChatService.generate_response\<close>: the whole body is inside \<open>try\<close>; any exception
  is replaced by \<open>HTTPException(500, "AI processing failed: " + str(e))\<close>.
\<close>

definition generate_response ::
  "'p llm \<Rightarrow> GeminiChatService \<Rightarrow> string \<Rightarrow> string \<Rightarrow> 'p \<Rightarrow> (HTTPException + string) \<times> 'p" where
  "generate_response llm self user_msg context p =
     (case processing_chain llm self (make_payload user_msg context) p of
        (Inr result, p') \<Rightarrow> (Inr result, p')
      | (Inl e, p') \<Rightarrow>
          (Inl \<lparr>status_code = 500, detail = ''AI processing failed: '' @ e\<rparr>, p'))"

text \<open>
  The prompt that reaches the provider for a message and a context: the template
  formatted with the payload of \<open>generate_response\<close>.
\<close>

definition render :: "string \<Rightarrow> string \<Rightarrow> string + string" where
  "render context user_msg = format_prompt template (make_payload user_msg context)"

section \<open>The HTTP endpoint\<close>

text \<open>
  Request validation is done by the framework from the declaration of
  \<open>MessageRequest\<close>, before the handler runs. The body must be a JSON object; \<open>message\<close>
  must be present, a string, and of length at least 1 (the string as decoded, nothing
  is trimmed); \<open>background_info\<close> may be absent or null (both give \<open>None\<close>) or a string.
  A value of another JSON type is rejected, not converted to a string. Other members
  are ignored. All failures are collected.
\<close>

datatype validation_error =
    ModelType
  | Missing string
  | StringType string
  | StringTooShort string

fun validate_message :: "json option \<Rightarrow> validation_error list + string" where
  "validate_message None = Inl [Missing ''message'']"
| "validate_message (Some (JStr s)) =
     (if length s < 1 then Inl [StringTooShort ''message''] else Inr s)"
| "validate_message (Some _) = Inl [StringType ''message'']"

fun validate_background_info :: "json option \<Rightarrow> validation_error list + string option" where
  "validate_background_info None = Inr None"
| "validate_background_info (Some JNull) = Inr None"
| "validate_background_info (Some (JStr s)) = Inr (Some s)"
| "validate_background_info (Some _) = Inl [StringType ''background_info'']"

fun parse_MessageRequest :: "json \<Rightarrow> validation_error list + MessageRequest" where
  "parse_MessageRequest (JObj kvs) =
     (case (validate_message (get_member kvs ''message''),
            validate_background_info (get_member kvs ''background_info'')) of
        (Inr m, Inr b) \<Rightarrow> Inr \<lparr>message = m, background_info = b\<rparr>
      | (Inl e1, Inr b) \<Rightarrow> Inl e1
      | (Inr m, Inl e2) \<Rightarrow> Inl e2
      | (Inl e1, Inl e2) \<Rightarrow> Inl (e1 @ e2))"
| "parse_MessageRequest _ = Inl [ModelType]"

text \<open>Python's \<open>x or ""\<close> for an optional string: \<open>None\<close> and \<open>""\<close> both give \<open>""\<close>.\<close>

definition or_empty :: "string option \<Rightarrow> string" where
  "or_empty x = (case x of None \<Rightarrow> [] | Some s \<Rightarrow> if s = [] then [] else s)"

text \<open>
  \<open>create_app\<close> builds the service first; the application exists only if that succeeds.
\<close>

record application =
  title :: string
  chat_service :: GeminiChatService

definition create_app :: "environ \<Rightarrow> exception + application" where
  "create_app env =
     (case GeminiChatService_init env of
        Inl e \<Rightarrow> Inl e
      | Inr svc \<Rightarrow> Inr \<lparr>title = ''AI Chat Service'', chat_service = svc\<rparr>)"

text \<open>\<open>handle_conversation(req: MessageRequest)\<close>, the handler of POST /conversation.\<close>

definition handle_conversation ::
  "'p llm \<Rightarrow> application \<Rightarrow> MessageRequest \<Rightarrow> 'p \<Rightarrow> (HTTPException + MessageResponse) \<times> 'p" where
  "handle_conversation llm app req p =
     (case generate_response llm (chat_service app) (message req)
             (or_empty (background_info req)) p of
        (Inl exc, p') \<Rightarrow> (Inl exc, p')
      | (Inr response_text, p') \<Rightarrow> (Inr \<lparr>reply = response_text\<rparr>, p'))"

text \<open>
  What the framework sends back for POST /conversation: 422 with the validation errors
  when the body does not validate (the handler is not run); the status and detail of an
  \<open>HTTPException\<close> the handler raises, as the JSON object \<open>{"detail": ...}\<close>; otherwise 200
  with the response model as the JSON object \<open>{"reply": ...}\<close>.
\<close>

datatype response_body =
    ReplyBody MessageResponse
  | DetailBody string
  | ValidationBody "validation_error list"

record http_response =
  status :: nat
  body :: response_body

definition post_conversation ::
  "'p llm \<Rightarrow> application \<Rightarrow> json \<Rightarrow> 'p \<Rightarrow> http_response \<times> 'p" where
  "post_conversation llm app request_body p =
     (case parse_MessageRequest request_body of
        Inl errs \<Rightarrow> (\<lparr>status = 422, body = ValidationBody errs\<rparr>, p)
      | Inr req \<Rightarrow>
          (case handle_conversation llm app req p of
             (Inl exc, p') \<Rightarrow>
               (\<lparr>status = status_code exc, body = DetailBody (detail exc)\<rparr>, p')
           | (Inr resp, p') \<Rightarrow> (\<lparr>status = 200, body = ReplyBody resp\<rparr>, p')))"

text \<open>The response body as the JSON document on the wire, where the program fixes it.\<close>

fun body_json :: "response_body \<Rightarrow> json option" where
  "body_json (ReplyBody r) = Some (JObj [(''reply'', JStr (reply r))])"
| "body_json (DetailBody d) = Some (JObj [(''detail'', JStr d)])"
| "body_json (ValidationBody errs) = None"

section \<open>The chat client\<close>

text \<open>
  What \<open>self.session.post(url, json=payload)\<close> can give back: it raises a
  \<open>RequestException\<close> (connection refused, timeout, ...; represented by its text), or it
  returns a response with a status code, a reason phrase, the URL, and a body that
  \<open>response.json()\<close> either decodes or rejects with a decode error (which in the HTTP
  library is a \<open>RequestException\<close> too; \<open>Inl\<close> holds its text).
\<close>

record Response =
  code :: nat
  reason :: string
  url :: string
  content :: "string + json"

datatype post_outcome = PostRaised string | PostResponse Response

text \<open>
  The network is outside the program: a parameter taking the URL and the JSON payload,
  with a state \<open>'n\<close> that every request may change.
\<close>

type_synonym 'n transport = "string \<Rightarrow> json \<Rightarrow> 'n \<Rightarrow> post_outcome \<times> 'n"

text \<open>Decimal digits of a status code, as \<open>str\<close> prints an \<open>int\<close>.\<close>

definition digit_char :: "nat \<Rightarrow> char" where
  "digit_char d = ''0123456789'' ! (d mod 10)"

function show_nat :: "nat \<Rightarrow> string" where
  "show_nat n = (if n < 10 then [digit_char n] else show_nat (n div 10) @ [digit_char (n mod 10)])"
  by pat_completeness auto
termination
  by (relation "measure id") auto

declare show_nat.simps [simp del]

text \<open>
  \<open>response.raise_for_status()\<close> raises \<open>HTTPError\<close> for a status from 400 to 599 and
  for no other; the result is the text of the error, if one is raised.
\<close>

definition raise_for_status :: "Response \<Rightarrow> string option" where
  "raise_for_status r =
     (if 400 \<le> code r \<and> code r < 500 then
        Some (show_nat (code r) @ '' Client Error: '' @ reason r @ '' for url: '' @ url r)
      else if 500 \<le> code r \<and> code r < 600 then
        Some (show_nat (code r) @ '' Server Error: '' @ reason r @ '' for url: '' @ url r)
      else None)"

text \<open>
  \<open>doc["reply"]\<close> on a decoded JSON document: a dict without the key raises
  \<open>KeyError\<close>, anything that is not a dict raises \<open>TypeError\<close>.
\<close>

fun subscript_reply :: "json \<Rightarrow> exception + json" where
  "subscript_reply (JObj kvs) =
     (case get_member kvs ''reply'' of
        None \<Rightarrow> Inl (KeyError ''reply'')
      | Some v \<Rightarrow> Inr v)"
| "subscript_reply _ = Inl TypeError"

record ChatClient =
  base_url :: string

definition ChatClient_init :: ChatClient where
  "ChatClient_init = \<lparr>base_url = ''http://127.0.0.1:8000''\<rparr>"

text \<open>
  \<open>ChatClient.send_message\<close>. \<open>background_info\<close> is added to the payload only
  \<open>if context\<close>, that is for a context that is neither \<open>None\<close> nor empty. Only
  \<open>RequestException\<close> is caught; what the function returns is whatever JSON value
  \<open>reply\<close> holds, or the error text as a string.
\<close>

definition request_payload :: "string \<Rightarrow> string option \<Rightarrow> json" where
  "request_payload msg context =
     JObj ((''message'', JStr msg) #
           (case context of
              None \<Rightarrow> []
            | Some c \<Rightarrow> if c \<noteq> [] then [(''background_info'', JStr c)] else []))"

definition send_message ::
  "'n transport \<Rightarrow> ChatClient \<Rightarrow> string \<Rightarrow> string option \<Rightarrow> 'n \<Rightarrow> (exception + json) \<times> 'n" where
  "send_message post self msg context n =
     (let url = base_url self @ ''/conversation'';
          payload = request_payload msg context
      in case post url payload n of
           (PostRaised e, n') \<Rightarrow> (Inr (JStr (''Error: '' @ e)), n')
         | (PostResponse response, n') \<Rightarrow>
             (case raise_for_status response of
                Some e \<Rightarrow> (Inr (JStr (''Error: '' @ e)), n')
              | None \<Rightarrow>
                  (case content response of
                     Inl e \<Rightarrow> (Inr (JStr (''Error: '' @ e)), n')
                   | Inr doc \<Rightarrow> (subscript_reply doc, n'))))"

section \<open>The interactive loop\<close>

text \<open>
  \<open>str.strip()\<close> removes leading and trailing whitespace, \<open>str.lower()\<close> maps upper-case
  letters to lower case; both are given here on the code points below 256.
\<close>

definition isspace :: "char \<Rightarrow> bool" where
  "isspace c =
     (let n = (of_char c :: nat)
      in (9 \<le> n \<and> n \<le> 13) \<or> (28 \<le> n \<and> n \<le> 32) \<or> n = 133 \<or> n = 160)"

definition strip :: "string \<Rightarrow> string" where
  "strip s = rev (dropWhile isspace (rev (dropWhile isspace s)))"

definition lower_char :: "char \<Rightarrow> char" where
  "lower_char c =
     (let n = (of_char c :: nat)
      in if (65 \<le> n \<and> n \<le> 90) \<or> (192 \<le> n \<and> n \<le> 222 \<and> n \<noteq> 215)
         then char_of (n + 32) else c)"

definition lower :: "string \<Rightarrow> string" where
  "lower s = map lower_char s"

text \<open>
  One pass through the body of \<open>while True\<close> in \<open>interactive_chat\<close>, for a line that
  \<open>input\<close> returned and the context held: the loop is left (\<open>Break\<close>) or goes on with a
  context (\<open>Continue\<close>); an exception of \<open>send_message\<close> is not caught in the loop.
  What is printed is not part of the model.
\<close>

datatype loop_control = Break | Continue string

definition interactive_step ::
  "'n transport \<Rightarrow> ChatClient \<Rightarrow> string \<Rightarrow> string \<Rightarrow> 'n \<Rightarrow> (exception + loop_control) \<times> 'n" where
  "interactive_step post self line context n =
     (let user_input = strip line in
      if lower user_input \<in> set [''quit'', ''exit'', ''q''] then (Inr Break, n)
      else if lower user_input = ''clear'' then (Inr (Continue []), n)
      else if user_input = [] then (Inr (Continue context), n)
      else
        (case send_message post self user_input (Some context) n of
           (Inl exc, n') \<Rightarrow> (Inl exc, n')
         | (Inr response, n') \<Rightarrow> (Inr (Continue context), n')))"

text \<open>
  The loop over what the terminal delivers: a line, or an interrupt
  (\<open>KeyboardInterrupt\<close>, caught: the loop ends). When the input has ended, \<open>input\<close>
  raises \<open>EOFError\<close>, which is not caught. The result is the exception that left the
  loop, if any.
\<close>

datatype console_input = Line string | Interrupt

fun interactive_loop ::
  "'n transport \<Rightarrow> ChatClient \<Rightarrow> console_input list \<Rightarrow> string \<Rightarrow> 'n \<Rightarrow> exception option \<times> 'n" where
  "interactive_loop post self [] context n = (Some EOFError, n)"
| "interactive_loop post self (Interrupt # rest) context n = (None, n)"
| "interactive_loop post self (Line line # rest) context n =
     (case interactive_step post self line context n of
        (Inl exc, n') \<Rightarrow> (Some exc, n')
      | (Inr Break, n') \<Rightarrow> (None, n')
      | (Inr (Continue context'), n') \<Rightarrow> interactive_loop post self rest context' n')"

definition interactive_chat ::
  "'n transport \<Rightarrow> ChatClient \<Rightarrow> console_input list \<Rightarrow> 'n \<Rightarrow> exception option \<times> 'n" where
  "interactive_chat post self inputs n = interactive_loop post self inputs [] n"

section \<open>Occurrences of a substring\<close>

text \<open>
  \<open>pat\<close> occurs in \<open>txt\<close> at index \<open>i\<close> when the \<open>length pat\<close> characters of \<open>txt\<close> from
  \<open>i\<close> on are \<open>pat\<close>; \<open>occurrences\<close> lists all such indices in increasing order.
\<close>

definition occurs_at :: "'a list \<Rightarrow> 'a list \<Rightarrow> nat \<Rightarrow> bool" where
  "occurs_at pat txt i = (take (length pat) (drop i txt) = pat)"

definition occurrences :: "'a list \<Rightarrow> 'a list \<Rightarrow> nat list" where
  "occurrences pat txt = filter (occurs_at pat txt) [0..<Suc (length txt)]"

section \<open>Properties of the prompt template\<close>

lemma format_template:
  "format_prompt template (make_payload user_msg context) =
     Inr (''You are a helpful AI assistant. ''
          @ (if context \<noteq> [] then ''Context: '' @ context else [])
          @ [newline, newline] @ ''User inquiry: '' @ user_msg)"
  by (simp add: template_def make_payload_def)

lemma render_eq:
  "render context user_msg =
     Inr (''You are a helpful AI assistant. ''
          @ (if context \<noteq> [] then ''Context: '' @ context else [])
          @ [newline, newline]
          @ ''User inquiry: '' @ user_msg)"
  unfolding render_def by (rule format_template)

text \<open>
  Claim C2. For every context and every message, rendering the prompt succeeds (the
  result is never an error) and is exactly the preamble \<open>You are a helpful AI assistant. \<close>,
  then the context segment (\<open>Context: \<close> and the context when the context is not empty,
  nothing otherwise), then an empty line (two newline characters), then \<open>User inquiry: \<close>
  and the message.
\<close>

theorem render_exact:
  "render context user_msg =
     Inr (''You are a helpful AI assistant. ''
          @ (if context \<noteq> [] then ''Context: '' @ context else [])
          @ [newline, newline]
          @ ''User inquiry: '' @ user_msg)"
  by (simp add: render_def template_def make_payload_def)

section \<open>Properties of the service and the endpoint\<close>

lemma init_template:
  "GeminiChatService_init env = Inr svc \<Longrightarrow> svc_template svc = template"
  by (auto simp: GeminiChatService_init_def split: option.splits if_splits)

lemma create_app_template:
  "create_app env = Inr app \<Longrightarrow> svc_template (chat_service app) = template"
  by (auto simp: create_app_def split: sum.splits dest: init_template)

lemma processing_chain_render:
  "svc_template self = template \<Longrightarrow>
   processing_chain llm self (make_payload user_msg context) p =
     (case render context user_msg of
        Inl e \<Rightarrow> (Inl e, p)
      | Inr prompt \<Rightarrow> llm self prompt p)"
  by (simp add: processing_chain_def render_def)

lemma generate_response_status:
  "generate_response llm self user_msg context p = (Inl exc, p') \<Longrightarrow> status_code exc = 500"
  by (auto simp: generate_response_def split: prod.splits sum.splits)

lemma post_conversation_valid:
  "parse_MessageRequest request_body = Inr req \<Longrightarrow>
   post_conversation llm app request_body p =
     (case handle_conversation llm app req p of
        (Inl exc, p') \<Rightarrow> (\<lparr>status = status_code exc, body = DetailBody (detail exc)\<rparr>, p')
      | (Inr resp, p') \<Rightarrow> (\<lparr>status = 200, body = ReplyBody resp\<rparr>, p'))"
  by (simp add: post_conversation_def)

lemma post_conversation_invalid:
  "parse_MessageRequest request_body = Inl errs \<Longrightarrow>
   post_conversation llm app request_body p = (\<lparr>status = 422, body = ValidationBody errs\<rparr>, p)"
  by (simp add: post_conversation_def)

lemma post_conversation_422:
  "status (fst (post_conversation llm app request_body p)) = 422 \<longleftrightarrow>
     (\<exists>errs. parse_MessageRequest request_body = Inl errs)"
proof (cases "parse_MessageRequest request_body")
  case (Inl errs)
  then show ?thesis by (simp add: post_conversation_invalid)
next
  case (Inr req)
  obtain res p' where h: "generate_response llm (chat_service app) (message req)
             (or_empty (background_info req)) p = (res, p')"
    by (cases "generate_response llm (chat_service app) (message req)
             (or_empty (background_info req)) p") auto
  show ?thesis
  proof (cases res)
    case (Inl exc)
    with h Inr generate_response_status [of llm _ _ _ p exc p'] show ?thesis
      by (simp add: post_conversation_valid handle_conversation_def)
  next
    case (Inr r)
    with h \<open>parse_MessageRequest request_body = Inr req\<close> show ?thesis
      by (simp add: post_conversation_valid handle_conversation_def)
  qed
qed

lemma validate_message_Inl:
  "(\<exists>e. validate_message x = Inl e) \<longleftrightarrow>
     x = None \<or> (\<exists>v. x = Some v \<and> (\<forall>s. v \<noteq> JStr s)) \<or> x = Some (JStr [])"
proof (cases x)
  case None
  then show ?thesis by simp
next
  case (Some v)
  then show ?thesis by (cases v) auto
qed

lemma validate_background_info_Inl:
  "(\<exists>e. validate_background_info x = Inl e) \<longleftrightarrow>
     (\<exists>v. x = Some v \<and> v \<noteq> JNull \<and> (\<forall>s. v \<noteq> JStr s))"
proof (cases x)
  case None
  then show ?thesis by simp
next
  case (Some v)
  then show ?thesis by (cases v) auto
qed

lemma parse_MessageRequest_Inl:
  "(\<exists>errs. parse_MessageRequest (JObj kvs) = Inl errs) \<longleftrightarrow>
     (\<exists>e. validate_message (get_member kvs ''message'') = Inl e) \<or>
     (\<exists>e. validate_background_info (get_member kvs ''background_info'') = Inl e)"
  by (auto split: sum.splits)

lemma parse_non_object:
  "(\<forall>kvs. request_body \<noteq> JObj kvs) \<Longrightarrow> parse_MessageRequest request_body = Inl [ModelType]"
  by (cases request_body) auto

text \<open>
  Claim C1, as stated for every request body with a non-empty message, fails: the
  body \<open>{"message": "Hello", "background_info": {}}\<close> has the non-empty message
  \<open>Hello\<close>, and with a provider that returns \<open>Hi there\<close> for every prompt the answer is
  status 422, not 200, because \<open>background_info\<close> is neither a string nor null. The
  provider is not called (its state is unchanged).
\<close>

theorem conversation_reply_counterexample:
  "get_member [(''message'', JStr ''Hello''), (''background_info'', JObj [])] ''message''
     = Some (JStr ''Hello'') \<and>
   post_conversation (\<lambda>svc prompt p. (Inr ''Hi there'', Suc p))
     \<lparr>title = ''AI Chat Service'',
      chat_service = \<lparr>model = ''gemini-2.5-flash'', google_api_key = ''secret'',
                      temperature = 7 / 10, svc_template = template\<rparr>\<rparr>
     (JObj [(''message'', JStr ''Hello''), (''background_info'', JObj [])]) (0::nat) =
   (\<lparr>status = 422, body = ValidationBody [StringType ''background_info'']\<rparr>, 0)"
  by (simp add: post_conversation_def get_member_def)

text \<open>
  Claim C1, amended. For an application that was built, a request body whose \<open>message\<close>
  is a non-empty string and whose \<open>background_info\<close> is absent, null or a string, and a
  provider that returns the text \<open>r\<close> for the rendered prompt, POST /conversation answers
  with status 200 and the body \<open>{"reply": r}\<close>: the completion is passed through
  unchanged, and the provider was called once (its state is the one after that call).
\<close>

theorem conversation_reply_verbatim:
  assumes app: "create_app env = Inr app"
    and msg: "get_member kvs ''message'' = Some (JStr m)" and ne: "m \<noteq> []"
    and bg: "validate_background_info (get_member kvs ''background_info'') = Inr b"
    and prompt: "render (or_empty b) m = Inr prompt"
    and llm: "llm (chat_service app) prompt p = (Inr r, p')"
  shows "post_conversation llm app (JObj kvs) p =
           (\<lparr>status = 200, body = ReplyBody \<lparr>reply = r\<rparr>\<rparr>, p') \<and>
         body_json (ReplyBody \<lparr>reply = r\<rparr>) = Some (JObj [(''reply'', JStr r)])"
proof -
  have req: "parse_MessageRequest (JObj kvs) = Inr \<lparr>message = m, background_info = b\<rparr>"
    using msg ne bg by simp
  have chain: "processing_chain llm (chat_service app) (make_payload m (or_empty b)) p = (Inr r, p')"
    by (simp add: processing_chain_render [OF create_app_template [OF app]] prompt llm)
  have "post_conversation llm app (JObj kvs) p =
           (\<lparr>status = 200, body = ReplyBody \<lparr>reply = r\<rparr>\<rparr>, p')"
    by (simp add: post_conversation_valid [OF req] handle_conversation_def
        generate_response_def chain)
  then show ?thesis by simp
qed

theorem conversation_reply_verbatim_witness:
  "post_conversation (\<lambda>svc prompt p. (Inr ''Hi there'', Suc p))
     \<lparr>title = ''AI Chat Service'',
      chat_service = \<lparr>model = ''gemini-2.5-flash'', google_api_key = ''secret'',
                      temperature = 7 / 10, svc_template = template\<rparr>\<rparr>
     (JObj [(''message'', JStr ''Hello'')]) (0::nat) =
   (\<lparr>status = 200, body = ReplyBody \<lparr>reply = ''Hi there''\<rparr>\<rparr>, 1)"
proof -
  let ?app = "\<lparr>title = ''AI Chat Service'',
      chat_service = \<lparr>model = ''gemini-2.5-flash'', google_api_key = ''secret'',
                      temperature = 7 / 10, svc_template = template\<rparr>\<rparr>"
  let ?llm = "\<lambda>(svc::GeminiChatService) (prompt::string) (p::nat). (Inr ''Hi there'' :: string + string, Suc p)"
  have app: "create_app [''GOOGLE_API_KEY'' \<mapsto> ''secret''] = Inr ?app"
    by (simp add: create_app_def GeminiChatService_init_def)
  have msg: "get_member [(''message'', JStr ''Hello'')] ''message'' = Some (JStr ''Hello'')"
    by (simp add: get_member_def)
  have ne: "''Hello'' \<noteq> []" by simp
  have bg: "validate_background_info (get_member [(''message'', JStr ''Hello'')] ''background_info'') = Inr None"
    by (simp add: get_member_def)
  have prompt: "render (or_empty None) ''Hello'' =
      Inr (''You are a helpful AI assistant. '' @ [newline, newline] @ ''User inquiry: Hello'')"
    by (simp add: render_eq or_empty_def)
  have llm: "?llm (chat_service ?app)
      (''You are a helpful AI assistant. '' @ [newline, newline] @ ''User inquiry: Hello'') 0 =
      (Inr ''Hi there'', 1)"
    by simp
  show ?thesis
    using conversation_reply_verbatim [OF app msg ne bg prompt, of ?llm 0 "''Hi there''" 1, OF llm]
    by simp
qed

text \<open>
  Claim C5. For every valid request, when the completion call raises with text \<open>m\<close>, the
  service raises an HTTP exception with status 500 and detail \<open>AI processing failed: \<close>
  followed by \<open>m\<close>; the response of POST /conversation has status 500 and that detail,
  which contains \<open>AI processing failed:\<close>. The provider's state is the one after that
  single failed call: nothing is retried and no other text is substituted.
\<close>

theorem conversation_failure_500:
  assumes app: "create_app env = Inr app"
    and req: "parse_MessageRequest request_body = Inr req"
    and prompt: "render (or_empty (background_info req)) (message req) = Inr prompt"
    and llm: "llm (chat_service app) prompt p = (Inl m, p')"
  shows "generate_response llm (chat_service app) (message req)
             (or_empty (background_info req)) p =
           (Inl \<lparr>status_code = 500, detail = ''AI processing failed: '' @ m\<rparr>, p') \<and>
         post_conversation llm app request_body p =
           (\<lparr>status = 500, body = DetailBody (''AI processing failed: '' @ m)\<rparr>, p') \<and>
         sublist ''AI processing failed:'' (''AI processing failed: '' @ m)"
proof -
  have chain: "processing_chain llm (chat_service app)
      (make_payload (message req) (or_empty (background_info req))) p = (Inl m, p')"
    by (simp add: processing_chain_render [OF create_app_template [OF app]] prompt llm)
  have gen: "generate_response llm (chat_service app) (message req)
             (or_empty (background_info req)) p =
           (Inl \<lparr>status_code = 500, detail = ''AI processing failed: '' @ m\<rparr>, p')"
    by (simp add: generate_response_def chain)
  have post: "post_conversation llm app request_body p =
           (\<lparr>status = 500, body = DetailBody (''AI processing failed: '' @ m)\<rparr>, p')"
    by (simp add: post_conversation_valid [OF req] handle_conversation_def gen)
  have "''AI processing failed: '' @ m = [] @ ''AI processing failed:'' @ ('' '' @ m)"
    by simp
  then have "sublist ''AI processing failed:'' (''AI processing failed: '' @ m)"
    unfolding sublist_def by blast
  with gen post show ?thesis by simp
qed

theorem conversation_failure_500_witness:
  "post_conversation (\<lambda>svc prompt p. (Inl ''quota exceeded'', Suc p))
     \<lparr>title = ''AI Chat Service'',
      chat_service = \<lparr>model = ''gemini-2.5-flash'', google_api_key = ''secret'',
                      temperature = 7 / 10, svc_template = template\<rparr>\<rparr>
     (JObj [(''message'', JStr ''Hello''), (''background_info'', JStr ''be brief'')]) (0::nat) =
   (\<lparr>status = 500, body = DetailBody ''AI processing failed: quota exceeded''\<rparr>, 1)"
proof -
  let ?app = "\<lparr>title = ''AI Chat Service'',
      chat_service = \<lparr>model = ''gemini-2.5-flash'', google_api_key = ''secret'',
                      temperature = 7 / 10, svc_template = template\<rparr>\<rparr>"
  let ?llm = "\<lambda>(svc::GeminiChatService) (prompt::string) (p::nat). (Inl ''quota exceeded'' :: string + string, Suc p)"
  let ?req = "\<lparr>message = ''Hello'', background_info = Some ''be brief''\<rparr>"
  let ?prompt = "''You are a helpful AI assistant. Context: be brief'' @ [newline, newline] @ ''User inquiry: Hello''"
  have app: "create_app [''GOOGLE_API_KEY'' \<mapsto> ''secret''] = Inr ?app"
    by (simp add: create_app_def GeminiChatService_init_def)
  have req: "parse_MessageRequest
      (JObj [(''message'', JStr ''Hello''), (''background_info'', JStr ''be brief'')]) = Inr ?req"
    by (simp add: get_member_def)
  have prompt: "render (or_empty (background_info ?req)) (message ?req) = Inr ?prompt"
    by (simp add: render_eq or_empty_def)
  have llm: "?llm (chat_service ?app) ?prompt 0 = (Inl ''quota exceeded'', 1)"
    by simp
  show ?thesis
    using conversation_failure_500 [OF app req prompt, of ?llm 0 "''quota exceeded''" 1, OF llm]
    by simp
qed

section \<open>Validation, startup and the optional context\<close>

text \<open>
  Claim C4, as stated, fails: a request whose \<open>message\<close> is present and not empty is
  still rejected with 422 when \<open>background_info\<close> is not a string or null (here a JSON
  array); the handler and the provider are not run.
\<close>

theorem conversation_422_missing_or_empty_counterexample:
  "get_member [(''message'', JStr ''Hello''), (''background_info'', JArr [JStr ''x''])] ''message''
     = Some (JStr ''Hello'') \<and>
   post_conversation (\<lambda>svc prompt p. (Inr ''Hi there'', Suc p))
     \<lparr>title = ''AI Chat Service'',
      chat_service = \<lparr>model = ''gemini-2.5-flash'', google_api_key = ''secret'',
                      temperature = 7 / 10, svc_template = template\<rparr>\<rparr>
     (JObj [(''message'', JStr ''Hello''), (''background_info'', JArr [JStr ''x''])]) (0::nat) =
   (\<lparr>status = 422, body = ValidationBody [StringType ''background_info'']\<rparr>, 0)"
  by (simp add: post_conversation_def get_member_def)

text \<open>
  Claim C4, amended. POST /conversation answers 422 exactly when the body does not
  have the declared shape: it is not a JSON object, or \<open>message\<close> is missing, is not a
  string, or is the empty string (length 0 as decoded, nothing trimmed), or
  \<open>background_info\<close> is present and neither null nor a string. In particular the message
  of one space is valid: it is parsed as it is and the handler runs on it.
\<close>

theorem conversation_422_iff:
  "(status (fst (post_conversation llm app request_body p)) = 422 \<longleftrightarrow>
     (\<forall>kvs. request_body \<noteq> JObj kvs) \<or>
     (\<exists>kvs. request_body = JObj kvs \<and>
        (get_member kvs ''message'' = None
         \<or> (\<exists>v. get_member kvs ''message'' = Some v \<and> (\<forall>s. v \<noteq> JStr s))
         \<or> get_member kvs ''message'' = Some (JStr [])
         \<or> (\<exists>v. get_member kvs ''background_info'' = Some v \<and> v \<noteq> JNull
                \<and> (\<forall>s. v \<noteq> JStr s))))) \<and>
   parse_MessageRequest (JObj [(''message'', JStr '' '')]) =
     Inr \<lparr>message = '' '', background_info = None\<rparr> \<and>
   post_conversation llm app (JObj [(''message'', JStr '' '')]) p =
     (case handle_conversation llm app \<lparr>message = '' '', background_info = None\<rparr> p of
        (Inl exc, p') \<Rightarrow> (\<lparr>status = status_code exc, body = DetailBody (detail exc)\<rparr>, p')
      | (Inr resp, p') \<Rightarrow> (\<lparr>status = 200, body = ReplyBody resp\<rparr>, p'))"
proof -
  have iff: "status (fst (post_conversation llm app request_body p)) = 422 \<longleftrightarrow>
     (\<forall>kvs. request_body \<noteq> JObj kvs) \<or>
     (\<exists>kvs. request_body = JObj kvs \<and>
        (get_member kvs ''message'' = None
         \<or> (\<exists>v. get_member kvs ''message'' = Some v \<and> (\<forall>s. v \<noteq> JStr s))
         \<or> get_member kvs ''message'' = Some (JStr [])
         \<or> (\<exists>v. get_member kvs ''background_info'' = Some v \<and> v \<noteq> JNull
                \<and> (\<forall>s. v \<noteq> JStr s))))"
  proof (cases "\<exists>kvs. request_body = JObj kvs")
    case False
    then have "\<forall>kvs. request_body \<noteq> JObj kvs" by simp
    then show ?thesis
      by (simp add: post_conversation_422 parse_non_object)
  next
    case True
    then obtain kvs where b: "request_body = JObj kvs" by blast
    show ?thesis
      unfolding post_conversation_422 b parse_MessageRequest_Inl
        validate_message_Inl validate_background_info_Inl
      by auto
  qed
  have sp: "parse_MessageRequest (JObj [(''message'', JStr '' '')]) =
     Inr \<lparr>message = '' '', background_info = None\<rparr>"
    by (simp add: get_member_def)
  show ?thesis
    using iff sp post_conversation_valid [OF sp, of llm app p] by simp
qed

theorem conversation_422_iff_witness:
  "status (fst (post_conversation (\<lambda>svc prompt p. (Inr ''ok'', Suc p))
      \<lparr>title = ''AI Chat Service'',
       chat_service = \<lparr>model = ''gemini-2.5-flash'', google_api_key = ''secret'',
                       temperature = 7 / 10, svc_template = template\<rparr>\<rparr>
      (JObj [(''message'', JStr [])]) (0::nat))) = 422 \<and>
   status (fst (post_conversation (\<lambda>svc prompt p. (Inr ''ok'', Suc p))
      \<lparr>title = ''AI Chat Service'',
       chat_service = \<lparr>model = ''gemini-2.5-flash'', google_api_key = ''secret'',
                       temperature = 7 / 10, svc_template = template\<rparr>\<rparr>
      (JObj [(''message'', JStr '' '')]) (0::nat))) = 200"
proof -
  let ?app = "\<lparr>title = ''AI Chat Service'',
       chat_service = \<lparr>model = ''gemini-2.5-flash'', google_api_key = ''secret'',
                       temperature = 7 / 10, svc_template = template\<rparr>\<rparr>"
  let ?llm = "\<lambda>(svc::GeminiChatService) (prompt::string) (p::nat). (Inr ''ok'' :: string + string, Suc p)"
  have m: "get_member [(''message'', JStr [])] ''message'' = Some (JStr [])"
    by (simp add: get_member_def)
  have a: "status (fst (post_conversation ?llm ?app (JObj [(''message'', JStr [])]) 0)) = 422"
    using conversation_422_iff [of ?llm ?app "JObj [(''message'', JStr [])]" 0] m by blast
  have b: "status (fst (post_conversation ?llm ?app (JObj [(''message'', JStr '' '')]) 0)) = 200"
    using conversation_422_iff [of ?llm ?app "JObj [(''message'', JStr [])]" 0]
    by (simp add: handle_conversation_def generate_response_def processing_chain_def
        template_def make_payload_def or_empty_def)
  from a b show ?thesis by simp
qed

text \<open>
  Claim C6. When \<open>GOOGLE_API_KEY\<close> is absent from the environment, the service
  constructor raises and so does \<open>create_app\<close>: no application exists whose endpoints could
  be served. When the variable holds a non-empty key, \<open>create_app\<close> returns the
  application, configured with that key.
\<close>

theorem startup_requires_api_key:
  "(env ''GOOGLE_API_KEY'' = None \<longrightarrow>
      GeminiChatService_init env =
        Inl (ValueError ''GOOGLE_API_KEY environment variable is required'') \<and>
      create_app env =
        Inl (ValueError ''GOOGLE_API_KEY environment variable is required'')) \<and>
   (\<forall>k. env ''GOOGLE_API_KEY'' = Some k \<and> k \<noteq> [] \<longrightarrow>
      (\<exists>app. create_app env = Inr app \<and> google_api_key (chat_service app) = k))"
  by (simp add: create_app_def GeminiChatService_init_def)

theorem startup_requires_api_key_witness:
  "create_app Map.empty = Inl (ValueError ''GOOGLE_API_KEY environment variable is required'') \<and>
   (\<exists>app. create_app [''GOOGLE_API_KEY'' \<mapsto> ''secret''] = Inr app \<and>
          google_api_key (chat_service app) = ''secret'')"
proof -
  have a: "Map.empty ''GOOGLE_API_KEY'' = (None :: string option)" by simp
  have b: "[''GOOGLE_API_KEY'' \<mapsto> ''secret''] ''GOOGLE_API_KEY'' = Some ''secret'' \<and> ''secret'' \<noteq> []"
    by simp
  from startup_requires_api_key [of Map.empty] a
  have 1: "create_app Map.empty = Inl (ValueError ''GOOGLE_API_KEY environment variable is required'')"
    by blast
  from startup_requires_api_key [of "[''GOOGLE_API_KEY'' \<mapsto> ''secret'']"] b
  have 2: "\<exists>app. create_app [''GOOGLE_API_KEY'' \<mapsto> ''secret''] = Inr app \<and>
          google_api_key (chat_service app) = ''secret''"
    by blast
  from 1 2 show ?thesis by simp
qed

text \<open>
  Claim C9. For every message, POST /conversation gives the same response and leaves
  the provider in the same state whether \<open>background_info\<close> is omitted, is null, or is the
  empty string: in all three cases the service is called with the context \<open>""\<close> (and an
  empty message is rejected alike).
\<close>

theorem background_info_absent_null_empty:
  "post_conversation llm app (JObj [(''message'', JStr m)]) p =
     post_conversation llm app (JObj [(''message'', JStr m), (''background_info'', JNull)]) p \<and>
   post_conversation llm app (JObj [(''message'', JStr m)]) p =
     post_conversation llm app (JObj [(''message'', JStr m), (''background_info'', JStr [])]) p \<and>
   post_conversation llm app (JObj [(''message'', JStr m)]) p =
     (if m = [] then (\<lparr>status = 422, body = ValidationBody [StringTooShort ''message'']\<rparr>, p)
      else (case generate_response llm (chat_service app) m [] p of
              (Inl exc, p') \<Rightarrow> (\<lparr>status = status_code exc, body = DetailBody (detail exc)\<rparr>, p')
            | (Inr text, p') \<Rightarrow> (\<lparr>status = 200, body = ReplyBody \<lparr>reply = text\<rparr>\<rparr>, p')))"
  by (simp add: post_conversation_def get_member_def handle_conversation_def or_empty_def
      split: prod.splits sum.splits)

section \<open>Properties of the chat client\<close>

lemma raise_for_status_error:
  "400 \<le> code r \<Longrightarrow> code r < 600 \<Longrightarrow>
   raise_for_status r =
     Some (show_nat (code r) @ (if code r < 500 then '' Client Error: '' else '' Server Error: '')
           @ reason r @ '' for url: '' @ url r)"
  by (simp add: raise_for_status_def)

lemma raise_for_status_pass:
  "\<not> (400 \<le> code r \<and> code r < 600) \<Longrightarrow> raise_for_status r = None"
  by (auto simp: raise_for_status_def)

text \<open>
  Claim C7, as stated, fails in two places. \<open>send_message\<close> does raise: a 200 response
  whose JSON object has no \<open>reply\<close> member makes \<open>["reply"]\<close> raise \<open>KeyError\<close>, which is
  not a \<open>RequestException\<close> and is not caught. And not every status outside 2xx gives
  an error string: \<open>raise_for_status\<close> raises for 4xx and 5xx only, so a 300 response with a
  \<open>reply\<close> member returns that reply.
\<close>

theorem send_message_raises_counterexample:
  "send_message
     (\<lambda>u j n. (PostResponse \<lparr>code = 200, reason = ''OK'', url = u, content = Inr (JObj [])\<rparr>, Suc n))
     ChatClient_init ''ping'' None (0::nat) = (Inl (KeyError ''reply''), 1) \<and>
   send_message
     (\<lambda>u j n. (PostResponse \<lparr>code = 300, reason = ''Multiple Choices'', url = u,
                               content = Inr (JObj [(''reply'', JStr ''pong'')])\<rparr>, Suc n))
     ChatClient_init ''ping'' None (0::nat) = (Inr (JStr ''pong''), 1)"
  by (simp add: send_message_def raise_for_status_def get_member_def)

text \<open>
  Claim C7, amended. Whatever the request gives back, \<open>send_message\<close> makes exactly
  that one request, and: when the request raises (connection refused, timeout) it
  returns \<open>Error: \<close> followed by the text of the exception; when the status is 4xx or 5xx
  it returns \<open>Error: \<close> followed by the text of the HTTP error; when the status is
  another one and the body is not JSON it returns \<open>Error: \<close> followed by the decode
  error; when the status is another one and the body is a JSON object with a \<open>reply\<close>
  member it returns that member (so \<open>pong\<close> for \<open>{"reply": "pong"}\<close>). In none of these
  cases does it raise.
\<close>

theorem send_message_outcomes:
  assumes post: "post (base_url self @ ''/conversation'') (request_payload msg context) n = (outcome, n')"
  shows "(\<forall>e. outcome = PostRaised e \<longrightarrow>
            send_message post self msg context n = (Inr (JStr (''Error: '' @ e)), n')) \<and>
         (\<forall>r. outcome = PostResponse r \<and> 400 \<le> code r \<and> code r < 600 \<longrightarrow>
            send_message post self msg context n =
              (Inr (JStr (''Error: '' @ show_nat (code r)
                     @ (if code r < 500 then '' Client Error: '' else '' Server Error: '')
                     @ reason r @ '' for url: '' @ url r)), n')) \<and>
         (\<forall>r e. outcome = PostResponse r \<and> \<not> (400 \<le> code r \<and> code r < 600) \<and>
                 content r = Inl e \<longrightarrow>
            send_message post self msg context n = (Inr (JStr (''Error: '' @ e)), n')) \<and>
         (\<forall>r kvs v. outcome = PostResponse r \<and> \<not> (400 \<le> code r \<and> code r < 600) \<and>
                 content r = Inr (JObj kvs) \<and> get_member kvs ''reply'' = Some v \<longrightarrow>
            send_message post self msg context n = (Inr v, n'))"
proof (intro conjI allI impI)
  fix e assume "outcome = PostRaised e"
  with post show "send_message post self msg context n = (Inr (JStr (''Error: '' @ e)), n')"
    by (simp add: send_message_def)
next
  fix r assume "outcome = PostResponse r \<and> 400 \<le> code r \<and> code r < 600"
  with post show "send_message post self msg context n =
              (Inr (JStr (''Error: '' @ show_nat (code r)
                     @ (if code r < 500 then '' Client Error: '' else '' Server Error: '')
                     @ reason r @ '' for url: '' @ url r)), n')"
    by (simp add: send_message_def raise_for_status_error)
next
  fix r e assume "outcome = PostResponse r \<and> \<not> (400 \<le> code r \<and> code r < 600) \<and> content r = Inl e"
  with post show "send_message post self msg context n = (Inr (JStr (''Error: '' @ e)), n')"
    by (simp add: send_message_def raise_for_status_pass)
next
  fix r kvs v
  assume "outcome = PostResponse r \<and> \<not> (400 \<le> code r \<and> code r < 600) \<and>
                 content r = Inr (JObj kvs) \<and> get_member kvs ''reply'' = Some v"
  with post show "send_message post self msg context n = (Inr v, n')"
    by (simp add: send_message_def raise_for_status_pass)
qed

lemma show_nat_503: "show_nat 503 = ''503''"
  by code_simp

theorem send_message_outcomes_witness:
  "send_message
     (\<lambda>u j n. (PostResponse \<lparr>code = 200, reason = ''OK'', url = u,
                               content = Inr (JObj [(''reply'', JStr ''pong'')])\<rparr>, Suc n))
     ChatClient_init ''ping'' None (0::nat) = (Inr (JStr ''pong''), 1) \<and>
   send_message (\<lambda>u j n. (PostRaised ''Connection refused'', Suc n))
     ChatClient_init ''ping'' None (0::nat) = (Inr (JStr ''Error: Connection refused''), 1) \<and>
   send_message
     (\<lambda>u j n. (PostResponse \<lparr>code = 503, reason = ''Service Unavailable'', url = u,
                               content = Inl ''Expecting value''\<rparr>, Suc n))
     ChatClient_init ''ping'' None (0::nat) =
     (Inr (JStr ''Error: 503 Server Error: Service Unavailable for url: http://127.0.0.1:8000/conversation''), 1)"
proof -
  let ?u = "base_url ChatClient_init @ ''/conversation''"
  let ?ok = "\<lparr>code = 200, reason = ''OK'', url = ?u,
              content = Inr (JObj [(''reply'', JStr ''pong'')])\<rparr>"
  let ?bad = "\<lparr>code = 503, reason = ''Service Unavailable'', url = ?u,
              content = Inl ''Expecting value''\<rparr>"
  let ?p1 = "\<lambda>(u::string) (j::json) (n::nat). (PostResponse \<lparr>code = 200, reason = ''OK'', url = u,
                               content = Inr (JObj [(''reply'', JStr ''pong'')])\<rparr>, Suc n)"
  let ?p2 = "\<lambda>(u::string) (j::json) (n::nat). (PostRaised ''Connection refused'', Suc n)"
  let ?p3 = "\<lambda>(u::string) (j::json) (n::nat). (PostResponse \<lparr>code = 503, reason = ''Service Unavailable'', url = u,
                               content = Inl ''Expecting value''\<rparr>, Suc n)"
  have g: "get_member [(''reply'', JStr ''pong'')] ''reply'' = Some (JStr ''pong'')"
    by (simp add: get_member_def)
  have 1: "send_message ?p1 ChatClient_init ''ping'' None 0 = (Inr (JStr ''pong''), 1)"
    using send_message_outcomes [of ?p1 ChatClient_init "''ping''" None 0 "PostResponse ?ok" 1] g
    by simp
  have 2: "send_message ?p2 ChatClient_init ''ping'' None 0 = (Inr (JStr ''Error: Connection refused''), 1)"
    using send_message_outcomes [of ?p2 ChatClient_init "''ping''" None 0
        "PostRaised ''Connection refused''" 1]
    by simp
  have 3: "send_message ?p3 ChatClient_init ''ping'' None 0 =
     (Inr (JStr ''Error: 503 Server Error: Service Unavailable for url: http://127.0.0.1:8000/conversation''), 1)"
    using send_message_outcomes [of ?p3 ChatClient_init "''ping''" None 0 "PostResponse ?bad" 1]
    by (simp add: show_nat_503 ChatClient_init_def)
  from 1 2 3 show ?thesis by simp
qed

section \<open>Properties of the interactive loop\<close>


















section \<open>Occurrences of the context segment in the prompt\<close>

lemma occurs_at_prefix: "occurs_at pat txt i \<longleftrightarrow> prefix pat (drop i txt)"
proof
  assume "occurs_at pat txt i"
  then have "pat = take (length pat) (drop i txt)" by (simp add: occurs_at_def)
  then show "prefix pat (drop i txt)" by (metis take_is_prefix)
next
  assume "prefix pat (drop i txt)"
  then obtain zs where "drop i txt = pat @ zs" by (auto simp: prefix_def)
  then show "occurs_at pat txt i" by (simp add: occurs_at_def)
qed

lemma occurs_at_sublist: "occurs_at pat txt i \<Longrightarrow> sublist pat txt"
proof -
  assume "occurs_at pat txt i"
  then obtain zs where "drop i txt = pat @ zs" by (auto simp: occurs_at_prefix prefix_def)
  then have "txt = take i txt @ pat @ zs" by (metis append_take_drop_id)
  then show ?thesis unfolding sublist_def by blast
qed

lemma sublist_occurs_at: "sublist pat txt \<Longrightarrow> \<exists>i\<le>length txt. occurs_at pat txt i"
proof -
  assume "sublist pat txt"
  then obtain ps ss where t: "txt = ps @ pat @ ss" by (auto simp: sublist_def)
  have "occurs_at pat txt (length ps)" by (simp add: t occurs_at_def)
  moreover have "length ps \<le> length txt" by (simp add: t)
  ultimately show ?thesis by blast
qed

lemma mem_occurrences:
  "i \<in> set (occurrences pat txt) \<longleftrightarrow> i \<le> length txt \<and> occurs_at pat txt i"
  unfolding occurrences_def set_filter set_upt by auto

lemma occurrences_Nil_iff: "occurrences pat txt = [] \<longleftrightarrow> \<not> sublist pat txt"
proof
  assume e: "occurrences pat txt = []"
  show "\<not> sublist pat txt"
  proof
    assume "sublist pat txt"
    then obtain i where "i \<le> length txt" "occurs_at pat txt i"
      using sublist_occurs_at by blast
    then have "i \<in> set (occurrences pat txt)" by (simp add: mem_occurrences)
    with e show False by simp
  qed
next
  assume n: "\<not> sublist pat txt"
  show "occurrences pat txt = []"
  proof (rule ccontr)
    assume "occurrences pat txt \<noteq> []"
    then obtain i where "i \<in> set (occurrences pat txt)"
      by (cases "occurrences pat txt") auto
    then have "occurs_at pat txt i" by (simp add: mem_occurrences)
    then have "sublist pat txt" by (rule occurs_at_sublist)
    with n show False by simp
  qed
qed

lemma filter_upt_single:
  assumes a: "a < n" and P: "\<And>i. i < n \<Longrightarrow> P i \<longleftrightarrow> i = a"
  shows "filter P [0..<n] = [a]"
proof -
  have cong: "filter P [0..<n] = filter (\<lambda>i. i = a) [0..<n]"
    using P by (intro filter_cong) auto
  have "[0..<a + (n - a)] = [0..<a] @ [a..<a + (n - a)]"
    by (rule upt_add_eq_append) simp
  then have "[0..<n] = [0..<a] @ [a..<n]"
    using a by simp
  also have "[a..<n] = a # [Suc a..<n]"
    using a by (rule upt_conv_Cons)
  finally have split: "[0..<n] = [0..<a] @ a # [Suc a..<n]" .
  have l: "filter (\<lambda>i. i = a) [0..<a] = []"
    by (simp add: filter_empty_conv)
  have r: "filter (\<lambda>i. i = a) [Suc a..<n] = []"
    by (simp add: filter_empty_conv)
  show ?thesis
    by (subst cong, subst split) (simp add: l r)
qed

lemma occurrences_single:
  assumes occ: "occurs_at pat txt a" and a: "a \<le> length txt"
    and uniq: "\<And>i. occurs_at pat txt i \<Longrightarrow> i = a"
  shows "occurrences pat txt = [a]"
proof -
  have "a < Suc (length txt)" using a by simp
  moreover have "\<And>i. i < Suc (length txt) \<Longrightarrow> occurs_at pat txt i \<longleftrightarrow> i = a"
    using occ uniq by blast
  ultimately show ?thesis
    unfolding occurrences_def by (rule filter_upt_single)
qed

text \<open>A word that begins with a letter absent from \<open>ys\<close> cannot begin inside \<open>ys\<close>.\<close>

lemma sublist_skip:
  assumes "c \<notin> set ys" and "sublist (c # k) (ys @ zs)"
  shows "sublist (c # k) zs"
proof -
  from assms(2) consider "sublist (c # k) ys" | "sublist (c # k) zs"
    | xs1 xs2 where "c # k = xs1 @ xs2" "suffix xs1 ys" "prefix xs2 zs"
    unfolding sublist_append by blast
  then show ?thesis
  proof cases
    case 1
    then have "c \<in> set ys" using set_mono_sublist by fastforce
    with assms(1) show ?thesis by simp
  next
    case 2
    then show ?thesis .
  next
    case 3
    show ?thesis
    proof (cases xs1)
      case Nil
      with 3 show ?thesis by auto
    next
      case (Cons x xs)
      with 3 have "c \<in> set xs1" by auto
      with 3 have "c \<in> set ys" using set_mono_suffix by blast
      with assms(1) show ?thesis by simp
    qed
  qed
qed

text \<open>If \<open>u @ y = y @ x\<close> then \<open>x\<close> is a rotation of \<open>u\<close>.\<close>

lemma rotation:
  "u @ y = y @ x \<Longrightarrow> \<exists>a b. u = a @ b \<and> x = b @ a"
proof (induction "length y" arbitrary: y rule: less_induct)
  case less
  show ?case
  proof (cases "length y \<le> length u")
    case True
    with less.prems obtain b where u: "u = y @ b"
      by (metis append_eq_append_conv_if append_take_drop_id)
    with less.prems have "x = b @ y" by simp
    with u show ?thesis by blast
  next
    case False
    then have "length u < length y" by simp
    with less.prems obtain y' where y: "y = u @ y'"
      by (metis append_eq_append_conv_if append_take_drop_id less_imp_le)
    with less.prems have e: "u @ y' = y' @ x" by simp
    show ?thesis
    proof (cases "u = []")
      case True
      with less.prems have "x = []" by simp
      with True show ?thesis by simp
    next
      case False
      then have "length y' < length y" using y by simp
      from less.hyps [OF this e] show ?thesis .
    qed
  qed
qed

text \<open>
  The context segment begins with a keyword \<open>c0 # K'\<close>; what follows it in the prompt
  begins with \<open>n0\<close>, a character the keyword does not contain, and has the keyword's
  first character only inside the message. If the message does not contain the
  keyword, the segment occurs only at the front.
\<close>

lemma unique_occurrence:
  assumes c0s: "c0 \<notin> set sep" and n0K: "n0 \<notin> set (c0 # K')" and sep: "sep = n0 # sep'"
    and nm: "\<not> sublist (c0 # K') m"
    and occ: "prefix ((c0 # K') @ q) (drop k (((c0 # K') @ q) @ sep @ m))"
  shows "k = 0"
proof (rule ccontr)
  assume k0: "k \<noteq> 0"
  define K where "K = c0 # K'"
  define p where "p = K @ q"
  define T where "T = sep @ m"
  have occ': "prefix p (drop k (p @ T))" using occ by (simp add: K_def p_def T_def)
  have noT: "\<not> sublist K T"
    using sublist_skip [OF c0s, of K' m] nm by (auto simp: K_def T_def)
  have Kp: "prefix K p" by (simp add: p_def)
  show False
  proof (cases "length p \<le> k")
    case True
    then have "drop k (p @ T) = drop (k - length p) T" by simp
    with occ' have "occurs_at p T (k - length p)" by (simp add: occurs_at_prefix)
    then have "sublist p T" by (rule occurs_at_sublist)
    moreover have "sublist K p" using Kp by (rule prefix_imp_sublist)
    ultimately have "sublist K T" by (rule sublist_order.order.trans [rotated])
    with noT show False by simp
  next
    case False
    then have kp: "k < length p" by simp
    define u where "u = take k p"
    define y where "y = drop k p"
    define x where "x = take k T"
    have puy: "p = u @ y" by (simp add: u_def y_def)
    have lu: "length u = k" using kp by (simp add: u_def)
    have "drop k (p @ T) = y @ T" using kp by (simp add: y_def)
    with occ' have "prefix (u @ y) (y @ T)" by (simp add: puy [symmetric])
    then obtain zs where "y @ T = (u @ y) @ zs" by (auto simp: prefix_def)
    then have "take (length y + k) (y @ T) = take (length y + k) ((u @ y) @ zs)" by simp
    then have eq: "y @ x = u @ y" by (simp add: x_def lu)
    then have lx: "length x = k"
      using lu by (metis length_append add.commute add_left_cancel)
    from eq obtain a b where ab: "u = a @ b" "x = b @ a"
      using rotation [of u y x] by auto
    obtain k' where k': "k = Suc k'" using k0 by (cases k) auto
    have une: "u \<noteq> []" using lu k0 by auto
    have xne: "x \<noteq> []" using lx k0 by auto
    have hdu: "hd u = c0"
      by (simp add: u_def p_def K_def k')
    have Tne: "T = n0 # (sep' @ m)" by (simp add: T_def sep)
    have hdx: "hd x = n0"
      by (simp add: x_def Tne k')
    have xT: "prefix x T" by (simp add: x_def take_is_prefix)
    have n0c0: "n0 \<noteq> c0" using n0K by auto
    show False
    proof (cases "b = []")
      case True
      with ab have "x = u" by simp
      with hdu hdx n0c0 show False by simp
    next
      case bne: False
      have hdb: "hd b = n0" using hdx ab bne by simp
      have "prefix a p" by (simp add: puy ab)
      from prefix_same_cases [OF this Kp] show False
      proof
        assume "prefix K a"
        then obtain a' where "a = K @ a'" by (auto simp: prefix_def)
        then have "x = b @ K @ a'" using ab by simp
        then have "sublist K x" by (metis sublist_appendI)
        moreover have "sublist x T" using xT by (rule prefix_imp_sublist)
        ultimately have "sublist K T" by (rule sublist_order.order.trans)
        with noT show False by simp
      next
        assume "prefix a K"
        then obtain r where r: "K = a @ r" by (auto simp: prefix_def)
        have "a @ r @ q = a @ b @ y" using puy ab r by (simp add: p_def)
        then have rq: "r @ q = b @ y" by simp
        show False
        proof (cases r)
          case Nil
          with r have "x = b @ K @ []" using ab by simp
          then have "sublist K x" by (metis sublist_appendI)
          moreover have "sublist x T" using xT by (rule prefix_imp_sublist)
          ultimately have "sublist K T" by (rule sublist_order.order.trans)
          with noT show False by simp
        next
          case (Cons d r')
          with rq bne have "d = hd b" by (cases b) auto
          with hdb have "n0 \<in> set r" using Cons by simp
          then have "n0 \<in> set K" using r by simp
          with n0K show False by (simp add: K_def)
        qed
      qed
    qed
  qed
qed

lemma occurs_after:
  assumes c: "c \<notin> set pre" and occ: "prefix (c # k) (drop i (pre @ rest))"
  shows "length pre \<le> i"
proof (rule ccontr)
  assume "\<not> length pre \<le> i"
  then have i: "i < length pre" by simp
  then have d: "drop i (pre @ rest) = (pre ! i) # drop (Suc i) pre @ rest"
    by (simp add: Cons_nth_drop_Suc)
  from occ have "c = pre ! i" unfolding d by simp
  with i c show False by auto
qed

text \<open>
  Claim C3, as stated for every message, fails: the message is inserted as it is, so a
  message that itself contains \<open>Context:\<close> puts that text into the prompt. With an empty
  context and the message \<open>Context: hi\<close> the prompt contains \<open>Context:\<close> (at index 48,
  inside the user inquiry); with the context \<open>a\<close> and the message \<open>Context: a\<close> the
  segment \<open>Context: a\<close> occurs twice (at 32 and at 58).
\<close>

theorem context_segment_counterexample:
  "render [] ''Context: hi'' =
     Inr (''You are a helpful AI assistant. '' @ [newline, newline]
          @ ''User inquiry: Context: hi'') \<and>
   occurrences ''Context:''
     (''You are a helpful AI assistant. '' @ [newline, newline]
      @ ''User inquiry: Context: hi'') = [48] \<and>
   render ''a'' ''Context: a'' =
     Inr (''You are a helpful AI assistant. Context: a'' @ [newline, newline]
          @ ''User inquiry: Context: a'') \<and>
   occurrences ''Context: a''
     (''You are a helpful AI assistant. Context: a'' @ [newline, newline]
      @ ''User inquiry: Context: a'') = [32, 58]"
proof -
  have 1: "occurrences ''Context:''
     (''You are a helpful AI assistant. '' @ [newline, newline]
      @ ''User inquiry: Context: hi'') = [48]"
    by code_simp
  have 2: "occurrences ''Context: a''
     (''You are a helpful AI assistant. Context: a'' @ [newline, newline]
      @ ''User inquiry: Context: a'') = [32, 58]"
    by code_simp
  show ?thesis using 1 2 by (simp add: render_eq)
qed

text \<open>
  Claim C3, amended. For every message that does not contain \<open>Context:\<close>: with an
  empty context the prompt contains no \<open>Context:\<close>; with a non-empty context, the
  segment \<open>Context: \<close> followed by the context occurs in the prompt exactly once, at
  index 32 (right after the preamble), and the segment \<open>User inquiry: \<close> followed by the
  message that ends the prompt starts two characters after that occurrence ends.
\<close>

theorem context_segment_occurrence:
  assumes nm: "occurrences ''Context:'' user_msg = []"
    and r: "render context user_msg = Inr prompt"
  shows "(context = [] \<longrightarrow> occurrences ''Context:'' prompt = []) \<and>
         (context \<noteq> [] \<longrightarrow>
            occurrences (''Context: '' @ context) prompt = [32] \<and>
            occurs_at (''User inquiry: '' @ user_msg) prompt
              (32 + length (''Context: '' @ context) + 2) \<and>
            length prompt =
              32 + length (''Context: '' @ context) + 2 + length (''User inquiry: '' @ user_msg))"
proof -
  define pre where "pre = ''You are a helpful AI assistant. ''"
  define sep where "sep = [newline, newline] @ ''User inquiry: ''"
  have lpre: "length pre = 32" by (simp add: pre_def)
  have cpre: "CHR ''C'' \<notin> set pre" by (simp add: pre_def)
  have csep: "CHR ''C'' \<notin> set sep" by (simp add: sep_def newline_def)
  have nK: "newline \<notin> set (CHR ''C'' # ''ontext:'')" by (simp add: newline_def)
  have sepC: "sep = newline # (newline # ''User inquiry: '')" by (simp add: sep_def)
  have nosub: "\<not> sublist (CHR ''C'' # ''ontext:'') user_msg"
    using nm by (simp add: occurrences_Nil_iff)
  have prompt: "prompt = pre @ (if context \<noteq> [] then ''Context: '' @ context else []) @ sep @ user_msg"
    using r by (simp add: render_eq pre_def sep_def)
  have empty: "occurrences ''Context:'' prompt = []" if "context = []"
  proof -
    have p: "prompt = pre @ sep @ user_msg" using prompt that by simp
    have "\<not> sublist (CHR ''C'' # ''ontext:'') (pre @ sep @ user_msg)"
      using sublist_skip [OF cpre] sublist_skip [OF csep] nosub by blast
    then show ?thesis by (simp add: p occurrences_Nil_iff)
  qed
  have one: "occurrences (''Context: '' @ context) prompt = [32] \<and>
            occurs_at (''User inquiry: '' @ user_msg) prompt
              (32 + length (''Context: '' @ context) + 2) \<and>
            length prompt =
              32 + length (''Context: '' @ context) + 2 + length (''User inquiry: '' @ user_msg)"
    if "context \<noteq> []"
  proof -
    define seg where "seg = (CHR ''C'' # ''ontext:'') @ ('' '' @ context)"
    have seg: "''Context: '' @ context = seg" by (simp add: seg_def)
    have p: "prompt = pre @ seg @ sep @ user_msg" using prompt that by (simp add: seg_def)
    have at: "occurs_at seg prompt 32"
      by (simp add: p occurs_at_def lpre)
    have le: "32 \<le> length prompt" by (simp add: p lpre)
    have uniq: "i = 32" if occ: "occurs_at seg prompt i" for i
    proof -
      from occ have pr: "prefix seg (drop i (pre @ seg @ sep @ user_msg))"
        by (simp add: occurs_at_prefix p)
      then have "prefix (CHR ''C'' # (''ontext:'' @ '' '' @ context)) (drop i (pre @ seg @ sep @ user_msg))"
        by (simp add: seg_def)
      from occurs_after [OF cpre this] have ge: "32 \<le> i" by (simp add: lpre)
      then have "drop i (pre @ seg @ sep @ user_msg) = drop (i - 32) (seg @ sep @ user_msg)"
        by (simp add: lpre)
      with pr have "prefix ((CHR ''C'' # ''ontext:'') @ ('' '' @ context))
          (drop (i - 32) (((CHR ''C'' # ''ontext:'') @ ('' '' @ context)) @ sep @ user_msg))"
        by (simp add: seg_def)
      from unique_occurrence [OF csep nK sepC nosub this] have "i - 32 = 0" .
      with ge show ?thesis by simp
    qed
    have occs: "occurrences seg prompt = [32]"
      using at le uniq by (rule occurrences_single)
    have uq: "occurs_at (''User inquiry: '' @ user_msg) prompt (32 + length seg + 2)"
      by (simp add: p occurs_at_def lpre sep_def)
    have len: "length prompt = 32 + length seg + 2 + length (''User inquiry: '' @ user_msg)"
      by (simp add: p lpre sep_def)
    show ?thesis using occs uq len by (simp only: seg)
  qed
  show ?thesis using empty one by blast
qed

theorem context_segment_occurrence_witness:
  "occurrences ''Context:''
     (''You are a helpful AI assistant. '' @ [newline, newline] @ ''User inquiry: Hello'') = [] \<and>
   occurrences ''Context: be brief''
     (''You are a helpful AI assistant. Context: be brief'' @ [newline, newline]
      @ ''User inquiry: Hello'') = [32]"
proof -
  have nm: "occurrences ''Context:'' ''Hello'' = []" by code_simp
  have r1: "render [] ''Hello'' =
      Inr (''You are a helpful AI assistant. '' @ [newline, newline] @ ''User inquiry: Hello'')"
    by (simp add: render_eq)
  have r2: "render ''be brief'' ''Hello'' =
      Inr (''You are a helpful AI assistant. Context: be brief'' @ [newline, newline]
           @ ''User inquiry: Hello'')"
    by (simp add: render_eq)
  show ?thesis
    using context_segment_occurrence [OF nm r1] context_segment_occurrence [OF nm r2]
    by simp
qed

end
